theory Spec2Isabelle
  imports Main
begin

section \<open>Python values, dictionaries and exceptions\<close>

text \<open>
  The module \<^verbatim>\<open>batch/batch/database.py\<close> builds parameterised SQL text and hands it to a
  pooled MySQL driver. Filter values are Python objects; the only distinction the code makes
  is \<^verbatim>\<open>isinstance(v, list)\<close>, so a value is either a list or one of the scalars.
  A \<^verbatim>\<open>dict\<close> is an association list in iteration (insertion) order; Python dictionaries
  have distinct keys, the theorems below hold for every association list and so for those.
\<close>

datatype pyval = PyNone | PyBool bool | PyInt int | PyStr string | PyList "pyval list"

type_synonym 'v dict = "(string \<times> 'v) list"

text \<open>
  The exceptions the module raises or handles: a failed \<^verbatim>\<open>assert\<close>, the class
  \<^verbatim>\<open>pymysql.err.InternalError\<close> caught by the retry loop, any other exception coming out
  of the driver, and the plain \<^verbatim>\<open>Exception(msg)\<close> raised when the retries are used up.
\<close>

datatype exn = AssertionError | InternalError | DriverError string | Exception string

section \<open>The driver\<close>

text \<open>
  The connection pool and its cursors belong to \<^verbatim>\<open>aiomysql\<close>, outside this module, and
  are a parameter of the model. One call of \<^verbatim>\<open>cursor.execute(sql, args)\<close> on the server
  state either raises or leaves a cursor holding the result rows (dictionaries, the pool is
  opened with \<^verbatim>\<open>DictCursor\<close>), the row count that \<^verbatim>\<open>execute\<close> returns and
  \<^verbatim>\<open>lastrowid\<close>. The argument is \<open>None\<close> where the code passes no arguments; tuples and
  lists of arguments are both lists here. Acquiring a pooled connection and opening a cursor
  (\<^verbatim>\<open>async with self.pool.acquire()\<close>, \<^verbatim>\<open>async with conn.cursor()\<close>) send no statement
  and are taken as given.
\<close>

record response =
  rows :: "pyval dict list"
  rowcount :: int
  lastrowid :: int

type_synonym 's driver = "string \<Rightarrow> pyval list option \<Rightarrow> 's \<Rightarrow> (exn + response) \<times> 's"

type_synonym ('a, 's) io = "'s \<Rightarrow> (exn + 'a) \<times> 's"

definition return_io :: "'a \<Rightarrow> ('a, 's) io" where
  "return_io a s = (Inr a, s)"

definition raise_io :: "exn \<Rightarrow> ('a, 's) io" where
  "raise_io e s = (Inl e, s)"

definition bind_io :: "('a, 's) io \<Rightarrow> ('a \<Rightarrow> ('b, 's) io) \<Rightarrow> ('b, 's) io" where
  "bind_io m f s = (case m s of (Inl e, s') \<Rightarrow> (Inl e, s') | (Inr a, s') \<Rightarrow> f a s')"

definition fetchone :: "response \<Rightarrow> pyval dict option" where
  "fetchone cursor = (case rows cursor of [] \<Rightarrow> None | r # _ \<Rightarrow> Some r)"

definition fetchall :: "response \<Rightarrow> pyval dict list" where
  "fetchall cursor = rows cursor"

text \<open>
  A driver that also writes down every statement it is given, in order: the log is how the
  theorems count the statements an operation sends.
\<close>

type_synonym statement = "string \<times> pyval list option"

definition recording :: "'s driver \<Rightarrow> ('s \<times> statement list) driver" where
  "recording exec sql args = (\<lambda>(s, log).
     case exec sql args s of (r, s') \<Rightarrow> (r, (s', log @ [(sql, args)])))"

section \<open>String helpers\<close>

text \<open>
  \<^verbatim>\<open>s.replace(old, new)\<close>: every non-overlapping occurrence of \<open>old\<close>, scanning from the
  left. For an empty \<open>old\<close> Python puts \<open>new\<close> before every character and at the end.
\<close>

function replace_nonempty :: "string \<Rightarrow> string \<Rightarrow> string \<Rightarrow> string" where
  "replace_nonempty old new [] = []"
| "replace_nonempty old new (c # cs) =
     (if old \<noteq> [] \<and> take (length old) (c # cs) = old
      then new @ replace_nonempty old new (drop (length old) (c # cs))
      else c # replace_nonempty old new cs)"
  by pat_completeness auto
termination
  by (relation "measure (\<lambda>(old, new, s). length s)") auto

definition str_replace :: "string \<Rightarrow> string \<Rightarrow> string \<Rightarrow> string" where
  "str_replace s old new =
     (if old = [] then new @ concat (map (\<lambda>c. c # new) s) else replace_nonempty old new s)"

text \<open>\<^verbatim>\<open>sep.join(xs)\<close>.\<close>

fun join :: "string \<Rightarrow> string list \<Rightarrow> string" where
  "join sep [] = []"
| "join sep [x] = x"
| "join sep (x # y # ys) = x @ sep @ join sep (y # ys)"

section \<open>The WHERE builder\<close>

text \<open>
  \<^verbatim>\<open>make_where_statement(items)\<close>: the loop over \<^verbatim>\<open>items.items()\<close> appends to the two
  lists \<^verbatim>\<open>template\<close> and \<^verbatim>\<open>values\<close>; the terms are joined afterwards.
\<close>

fun where_loop :: "pyval dict \<Rightarrow> string list \<Rightarrow> pyval list \<Rightarrow> string list \<times> pyval list" where
  "where_loop [] template vals = (template, vals)"
| "where_loop ((k, v) # rest) template vals =
     (case v of
        PyList l \<Rightarrow>
          (if length l = 0 then where_loop rest (template @ [''FALSE'']) vals
           else where_loop rest
                  (template @ [''`'' @ str_replace k ''`'' ''``'' @ ''` IN %s'']) (vals @ [v]))
      | _ \<Rightarrow> where_loop rest
               (template @ [''`'' @ str_replace k ''`'' ''``'' @ ''` = %s'']) (vals @ [v]))"

definition make_where_statement :: "pyval dict \<Rightarrow> string \<times> pyval list" where
  "make_where_statement items =
     (case where_loop items [] [] of (template, vals) \<Rightarrow> (join '' AND '' template, vals))"

section \<open>Identifier quoting as the specification words it\<close>

text \<open>
  The specification's quoting rule, written from its words: every occurrence of the
  delimiter inside the name is doubled, then the name is wrapped in the delimiter.
\<close>

definition double_backticks :: "string \<Rightarrow> string" where
  "double_backticks nm = concat (map (\<lambda>c. if c = CHR 0x60 then ''``'' else [c]) nm)"

definition quote_identifier :: "string \<Rightarrow> string" where
  "quote_identifier nm = CHR 0x60 # double_backticks nm @ [CHR 0x60]"

text \<open>What one filter entry contributes, as the specification lists the three cases.\<close>

definition is_list :: "pyval \<Rightarrow> bool" where
  "is_list v = (case v of PyList _ \<Rightarrow> True | _ \<Rightarrow> False)"

definition where_term :: "string \<times> pyval \<Rightarrow> string" where
  "where_term kv = (case kv of (k, v) \<Rightarrow>
     if v = PyList [] then ''FALSE''
     else if is_list v then quote_identifier k @ '' IN %s''
     else quote_identifier k @ '' = %s'')"

definition where_bound :: "string \<times> pyval \<Rightarrow> pyval list" where
  "where_bound kv = (case kv of (k, v) \<Rightarrow> if v = PyList [] then [] else [v])"

section \<open>Database\<close>

text \<open>
  The class \<^verbatim>\<open>Database\<close>: the connection parameters read from the configuration file and
  the pool, which is the driver here.
\<close>

record 's database =
  host :: string
  port :: int
  user :: string
  db :: string
  password :: string
  charset :: string
  pool :: "'s driver"

record 's table =
  name :: string
  table_db :: "'s database"

text \<open>
  \<^verbatim>\<open>Database.has_table\<close>. \<^verbatim>\<open>cursor.fetchone()\<close> gives the next row of the result or
  \<^verbatim>\<open>None\<close>; the code compares it with \<^verbatim>\<open>None\<close>.
\<close>

definition has_table :: "'s database \<Rightarrow> string \<Rightarrow> (bool, 's) io" where
  "has_table self nm =
     (let sql = ''SELECT * FROM INFORMATION_SCHEMA.tables '' @
                ''WHERE TABLE_SCHEMA = %s AND TABLE_NAME = %s''
      in bind_io (pool self sql (Some [PyStr (db self), PyStr nm]))
           (\<lambda>cursor. let result = fetchone cursor in return_io (result \<noteq> None)))"

text \<open>\<^verbatim>\<open>Database.drop_table(*names)\<close>.\<close>

definition drop_table_sql :: "string list \<Rightarrow> string" where
  "drop_table_sql names =
     ''DROP TABLE IF EXISTS '' @ join '','' (map (\<lambda>nm. ''`'' @ nm @ ''`'') names)"

definition drop_table :: "'s database \<Rightarrow> string list \<Rightarrow> (unit, 's) io" where
  "drop_table self names =
     bind_io (pool self (drop_table_sql names) None) (\<lambda>cursor. return_io ())"

text \<open>
  \<^verbatim>\<open>Database.create_table(name, schema, keys, can_exist)\<close>: the assertion comes first,
  before a connection is used; then the statement text is put together and executed with no
  arguments.
\<close>

definition create_table_sql :: "string \<Rightarrow> string dict \<Rightarrow> string list \<Rightarrow> bool \<Rightarrow> string" where
  "create_table_sql nm schema keys can_exist =
     (let schema' = join '', ''
            (map (\<lambda>(n, t). ''`'' @ str_replace n ''`'' ''``'' @ ''` '' @ t) schema);
          key_names = join '', ''
            (map (\<lambda>k. ''`'' @ str_replace k ''`'' ''``'' @ ''`'') keys);
          keys' = (if keys \<noteq> [] then '', PRIMARY KEY( '' @ key_names @ '' )'' else []);
          exists = (if can_exist then ''IF NOT EXISTS'' else [])
      in ''CREATE TABLE '' @ exists @ '' `'' @ nm @ ''` ( '' @ schema' @ '' '' @ keys' @ '')'')"

definition create_table ::
  "'s database \<Rightarrow> string \<Rightarrow> string dict \<Rightarrow> string list \<Rightarrow> bool \<Rightarrow> (unit, 's) io" where
  "create_table self nm schema keys can_exist =
     (if \<not> list_all (\<lambda>k. k \<in> set (map fst schema)) keys then raise_io AssertionError
      else bind_io (pool self (create_table_sql nm schema keys can_exist) None)
             (\<lambda>cursor. return_io ()))"

text \<open>\<^verbatim>\<open>Table.__init__\<close>: stores the name and the database, then creates the table.\<close>

definition Table_init ::
  "'s database \<Rightarrow> string \<Rightarrow> string dict \<Rightarrow> string list \<Rightarrow> bool \<Rightarrow> ('s table, 's) io" where
  "Table_init d nm schema keys can_exist =
     bind_io (create_table d nm schema keys can_exist)
       (\<lambda>u. return_io \<lparr>name = nm, table_db = d\<rparr>)"

text \<open>
  \<^verbatim>\<open>Database.create_temporary_table\<close>: \<^verbatim>\<open>for i in range(5)\<close> with a \<^verbatim>\<open>try\<close> whose
  handler catches \<^verbatim>\<open>pymysql.err.InternalError\<close> only. The random \<^verbatim>\<open>uuid.uuid4().hex\<close>
  of round \<open>i\<close> is the parameter \<open>uuid4_hex i\<close>; \<^verbatim>\<open>[:8]\<close> keeps its first eight characters.
\<close>

definition temporary_name :: "string \<Rightarrow> (nat \<Rightarrow> string) \<Rightarrow> nat \<Rightarrow> string" where
  "temporary_name root_name uuid4_hex i =
     (let suffix = take 8 (uuid4_hex i) in root_name @ ''-'' @ suffix)"

fun temporary_table_loop ::
  "'s database \<Rightarrow> (nat \<Rightarrow> string) \<Rightarrow> string \<Rightarrow> string dict \<Rightarrow> string list \<Rightarrow> nat list
     \<Rightarrow> ('s table, 's) io" where
  "temporary_table_loop self uuid4_hex root_name schema keys [] s =
     raise_io (Exception ''Too many attempts to get temp table.'') s"
| "temporary_table_loop self uuid4_hex root_name schema keys (i # rest) s =
     (let nm = temporary_name root_name uuid4_hex i
      in case Table_init self nm schema keys False s of
           (Inr t, s') \<Rightarrow> (Inr t, s')
         | (Inl e, s') \<Rightarrow>
             if e = InternalError
             then temporary_table_loop self uuid4_hex root_name schema keys rest s'
             else (Inl e, s'))"

definition create_temporary_table ::
  "'s database \<Rightarrow> (nat \<Rightarrow> string) \<Rightarrow> string \<Rightarrow> string dict \<Rightarrow> string list \<Rightarrow> ('s table, 's) io" where
  "create_temporary_table self uuid4_hex root_name schema keys =
     temporary_table_loop self uuid4_hex root_name schema keys [0..<5]"

section \<open>Table\<close>

text \<open>\<^verbatim>\<open>Table.new_record(items)\<close> returns \<^verbatim>\<open>cursor.lastrowid\<close>.\<close>

definition new_record_sql :: "string \<Rightarrow> pyval dict \<Rightarrow> string" where
  "new_record_sql tname items =
     (let names = join '', ''
            (map (\<lambda>k. ''`'' @ str_replace k ''`'' ''``'' @ ''`'') (map fst items));
          values_template = join '', '' (map (\<lambda>v. ''%s'') (map snd items))
      in ''INSERT INTO `'' @ tname @ ''` ('' @ names @ '') VALUES ('' @ values_template @ '')'')"

definition new_record :: "'s table \<Rightarrow> pyval dict \<Rightarrow> (int, 's) io" where
  "new_record self items =
     bind_io (pool (table_db self) (new_record_sql (name self) items) (Some (map snd items)))
       (\<lambda>cursor. return_io (lastrowid cursor))"

text \<open>
  \<^verbatim>\<open>Table.update_record(where_items, set_items)\<close>: everything happens under
  \<^verbatim>\<open>if len(set_items) != 0\<close>.
\<close>

definition update_record_sql :: "string \<Rightarrow> pyval dict \<Rightarrow> pyval dict \<Rightarrow> string" where
  "update_record_sql tname where_items set_items =
     (case make_where_statement where_items of (where_template, where_values) \<Rightarrow>
        let set_template = join '', ''
              (map (\<lambda>(k, v). ''`'' @ str_replace k ''`'' ''``'' @ ''` = %s'') set_items)
        in ''UPDATE `'' @ tname @ ''` SET '' @ set_template @ '' WHERE '' @ where_template)"

definition update_record :: "'s table \<Rightarrow> pyval dict \<Rightarrow> pyval dict \<Rightarrow> (unit, 's) io" where
  "update_record self where_items set_items =
     (if length set_items \<noteq> 0 then
        (case make_where_statement where_items of (where_template, where_values) \<Rightarrow>
           let set_values = map snd set_items;
               sql = update_record_sql (name self) where_items set_items
           in bind_io (pool (table_db self) sql (Some (set_values @ where_values)))
                (\<lambda>cursor. return_io ()))
      else return_io ())"

text \<open>
  \<^verbatim>\<open>Table.get_record(where_items, select_fields=None)\<close>: the projected fields are joined
  with commas as they come.
\<close>

definition get_record_sql :: "string \<Rightarrow> pyval dict \<Rightarrow> string list option \<Rightarrow> string" where
  "get_record_sql tname where_items select_fields =
     (case make_where_statement where_items of (where_template, where_values) \<Rightarrow>
        let select_fields' = (case select_fields of Some fs \<Rightarrow> join '','' fs | None \<Rightarrow> ''*'')
        in ''SELECT '' @ select_fields' @ '' FROM `'' @ tname @ ''` WHERE '' @ where_template)"

definition get_record ::
  "'s table \<Rightarrow> pyval dict \<Rightarrow> string list option \<Rightarrow> (pyval dict list, 's) io" where
  "get_record self where_items select_fields =
     (if \<not> (case select_fields of None \<Rightarrow> True | Some fs \<Rightarrow> length fs \<noteq> 0)
      then raise_io AssertionError
      else bind_io (pool (table_db self) (get_record_sql (name self) where_items select_fields)
                      (Some (snd (make_where_statement where_items))))
             (\<lambda>cursor. let result = fetchall cursor in return_io result))"

text \<open>
  \<^verbatim>\<open>Table.has_record(where_items)\<close>: \<^verbatim>\<open>count\<close> is what \<^verbatim>\<open>cursor.execute\<close> returns,
  the cursor's row count; no row is fetched.
\<close>

definition has_record_sql :: "string \<Rightarrow> pyval dict \<Rightarrow> string" where
  "has_record_sql tname where_items =
     (case make_where_statement where_items of (where_template, where_values) \<Rightarrow>
        ''SELECT COUNT(1) FROM `'' @ tname @ ''` WHERE '' @ where_template)"

definition has_record :: "'s table \<Rightarrow> pyval dict \<Rightarrow> (bool, 's) io" where
  "has_record self where_items =
     bind_io (pool (table_db self) (has_record_sql (name self) where_items)
                (Some (snd (make_where_statement where_items))))
       (\<lambda>cursor. let count = rowcount cursor in return_io (count \<ge> 1))"

text \<open>\<^verbatim>\<open>Table.delete_record(where_items)\<close>.\<close>

definition delete_record_sql :: "string \<Rightarrow> pyval dict \<Rightarrow> string" where
  "delete_record_sql tname where_items =
     (case make_where_statement where_items of (where_template, where_values) \<Rightarrow>
        ''DELETE FROM `'' @ tname @ ''` WHERE '' @ where_template)"

definition delete_record :: "'s table \<Rightarrow> pyval dict \<Rightarrow> (unit, 's) io" where
  "delete_record self where_items =
     bind_io (pool (table_db self) (delete_record_sql (name self) where_items)
                (Some (snd (make_where_statement where_items))))
       (\<lambda>cursor. return_io ())"

section \<open>Counting statements\<close>

text \<open>The same database and table over the recording driver.\<close>

definition recording_db :: "'s database \<Rightarrow> ('s \<times> statement list) database" where
  "recording_db d =
     \<lparr>host = host d, port = port d, user = user d, db = db d, password = password d,
      charset = charset d, pool = recording (pool d)\<rparr>"

definition recording_table :: "'s table \<Rightarrow> ('s \<times> statement list) table" where
  "recording_table t = \<lparr>name = name t, table_db = recording_db (table_db t)\<rparr>"

text \<open>
  The statements an operation sends when it starts with an empty log, and the value or
  exception it ends with.
\<close>

definition sent :: "('a, 's \<times> statement list) io \<Rightarrow> 's \<Rightarrow> statement list" where
  "sent m s = snd (snd (m (s, [])))"

definition outcome :: "('a, 's \<times> statement list) io \<Rightarrow> 's \<Rightarrow> exn + 'a" where
  "outcome m s = fst (m (s, []))"

text \<open>
  Statements sent one after the other with no arguments, starting from a server state: the
  state they leave, and whether every one of them is answered with
  \<^verbatim>\<open>InternalError\<close> at the state the run has reached by then.
\<close>

fun run_state :: "'s driver \<Rightarrow> string list \<Rightarrow> 's \<Rightarrow> 's" where
  "run_state exec [] s = s"
| "run_state exec (sql # sqls) s = run_state exec sqls (snd (exec sql None s))"

fun collides_along :: "'s driver \<Rightarrow> string list \<Rightarrow> 's \<Rightarrow> bool" where
  "collides_along exec [] s = True"
| "collides_along exec (sql # sqls) s =
     (fst (exec sql None s) = Inl InternalError \<and>
      collides_along exec sqls (snd (exec sql None s)))"

section \<open>Concrete environments\<close>

text \<open>
  Small concrete drivers, databases and random sources on which the theorems are run: a
  server that answers every statement with the same cursor, one that raises the same
  exception for every statement, and one that raises \<open>e\<close> for one statement text and
  \<^verbatim>\<open>InternalError\<close> for every other.
\<close>

definition answering :: "response \<Rightarrow> unit driver" where
  "answering r sql args s = (Inr r, s)"

definition failing :: "exn \<Rightarrow> unit driver" where
  "failing e sql args s = (Inl e, s)"

definition failing_at :: "string \<Rightarrow> exn \<Rightarrow> unit driver" where
  "failing_at stmt e sql args s = (if sql = stmt then (Inl e, s) else (Inl InternalError, s))"

definition batch_db :: "'s driver \<Rightarrow> 's database" where
  "batch_db exec =
     \<lparr>host = ''localhost'', port = 3306, user = ''batch'', db = ''batch'',
      password = ''secret'', charset = ''utf8'', pool = exec\<rparr>"

definition jobs_table :: "'s driver \<Rightarrow> 's table" where
  "jobs_table exec = \<lparr>name = ''jobs'', table_db = batch_db exec\<rparr>"

definition letters_uuid :: "nat \<Rightarrow> string" where
  "letters_uuid i =
     (if i = 0 then ''a3f09c1e5b7d4e2a8c6f0b1d2e3f4a5b''
      else if i = 1 then ''b81e44d07a2c4f19b0d5c6e7f8091a2b''
      else if i = 2 then ''c0ffee00d15ea5e4badc0de0feedface''
      else if i = 3 then ''d4c3b2a1908f4e7d8c6b5a4f3e2d1c0b''
      else ''e5f60718293a4b5c8d7e6f5041322314'')"

text \<open>
  A server whose state is the list of CREATE statements whose table exists: it accepts a
  new one and remembers it, and answers one whose table exists with
  \<^verbatim>\<open>InternalError\<close>.
\<close>

definition existing :: "string list driver" where
  "existing sql args taken =
     (if sql \<in> set taken then (Inl InternalError, taken)
      else (Inr \<lparr>rows = [], rowcount = 0, lastrowid = 0\<rparr>, sql # taken))"

section \<open>Helper lemmas\<close>

subsection \<open>Replacing and quoting\<close>

lemma replace_nonempty_char:
  "replace_nonempty [c] new s = concat (map (\<lambda>x. if x = c then new else [x]) s)"
  by (induction s) auto

lemma str_replace_backtick: "str_replace k ''`'' ''``'' = double_backticks k"
  by (simp add: str_replace_def replace_nonempty_char double_backticks_def)

lemma double_backticks_count:
  "length (filter (\<lambda>c. c = CHR 0x60) (double_backticks nm)) =
     2 * length (filter (\<lambda>c. c = CHR 0x60) nm)"
  by (induction nm) (simp_all add: double_backticks_def)

lemma double_backticks_others:
  "filter (\<lambda>c. c \<noteq> CHR 0x60) (double_backticks nm) = filter (\<lambda>c. c \<noteq> CHR 0x60) nm"
  by (induction nm) (simp_all add: double_backticks_def)

subsection \<open>The loop of the WHERE builder\<close>

lemma where_loop_acc:
  "where_loop items template vals =
     (template @ map where_term items, vals @ concat (map where_bound items))"
proof (induction items arbitrary: template vals)
  case Nil
  show ?case by simp
next
  case (Cons kv items)
  obtain k v where kv: "kv = (k, v)" by (cases kv)
  show ?case
    by (cases v)
       (simp_all add: kv Cons.IH where_term_def where_bound_def is_list_def
          str_replace_backtick quote_identifier_def)
qed

lemma make_where_statement_terms:
  "make_where_statement items =
     (join '' AND '' (map where_term items), concat (map where_bound items))"
  by (simp add: make_where_statement_def where_loop_acc)

lemma where_loop_split:
  "where_loop (pre @ kv # post) [] [] =
     (fst (where_loop pre [] []) @ where_term kv # fst (where_loop post [] []),
      snd (where_loop pre [] []) @ where_bound kv @ snd (where_loop post [] []))"
  by (simp add: where_loop_acc)

lemma make_where_statement_Nil: "make_where_statement [] = ([], [])"
  by (simp add: make_where_statement_def)

lemma join_append:
  "xs \<noteq> [] \<Longrightarrow> ys \<noteq> [] \<Longrightarrow> join sep (xs @ ys) = join sep xs @ sep @ join sep ys"
  by (induction sep xs rule: join.induct) (auto simp: neq_Nil_conv)

lemma join_around:
  "join sep (xs @ y # zs) =
     (if xs = [] then [] else join sep xs @ sep) @ y @ (if zs = [] then [] else sep @ join sep zs)"
proof -
  have tl: "join sep (y # zs) = y @ (if zs = [] then [] else sep @ join sep zs)"
    by (cases zs) simp_all
  show ?thesis
  proof (cases "xs = []")
    case True
    then show ?thesis by (simp add: tl)
  next
    case False
    then have "join sep (xs @ y # zs) = join sep xs @ sep @ join sep (y # zs)"
      by (rule join_append) simp
    then show ?thesis using False by (simp add: tl)
  qed
qed

subsection \<open>One statement through the recording driver\<close>

lemma recording_step:
  "bind_io (recording exec sql args) (\<lambda>cursor. return_io (f cursor)) (s, log) =
     (case exec sql args s of
        (Inl e, s') \<Rightarrow> (Inl e, (s', log @ [(sql, args)]))
      | (Inr cursor, s') \<Rightarrow> (Inr (f cursor), (s', log @ [(sql, args)])))"
  by (simp add: bind_io_def recording_def return_io_def split: prod.splits sum.splits)

lemma pool_recording_db [simp]: "pool (recording_db d) = recording (pool d)"
  by (simp add: recording_db_def)

lemma db_recording_db [simp]: "db (recording_db d) = db d"
  by (simp add: recording_db_def)

lemma recording_table_sel [simp]:
  "name (recording_table t) = name t"
  "table_db (recording_table t) = recording_db (table_db t)"
  by (simp_all add: recording_table_def)

lemma sent_step:
  "sent (bind_io (recording exec sql args) (\<lambda>cursor. return_io (f cursor))) s = [(sql, args)]"
  by (simp add: sent_def recording_step split: prod.splits sum.splits)

subsection \<open>The retry loop\<close>

lemma table_init_recording:
  assumes "list_all (\<lambda>k. k \<in> set (map fst schema)) keys"
  shows "Table_init (recording_db d) nm schema keys can_exist (s, log) =
     (case pool d (create_table_sql nm schema keys can_exist) None s of
        (Inl e, s') \<Rightarrow> (Inl e, (s', log @ [(create_table_sql nm schema keys can_exist, None)]))
      | (Inr cursor, s') \<Rightarrow>
          (Inr \<lparr>name = nm, table_db = recording_db d\<rparr>,
           (s', log @ [(create_table_sql nm schema keys can_exist, None)])))"
  using assms
  by (simp add: Table_init_def create_table_def bind_io_def return_io_def recording_def
        split: prod.splits sum.splits)

lemma table_init_assertion:
  assumes "\<not> list_all (\<lambda>k. k \<in> set (map fst schema)) keys"
  shows "Table_init d nm schema keys can_exist s = (Inl AssertionError, s)"
  using assms by (simp add: Table_init_def create_table_def bind_io_def raise_io_def)

lemma loop_all_collide:
  assumes ok: "list_all (\<lambda>k. k \<in> set (map fst schema)) keys"
  shows "collides_along (pool d)
           (map (\<lambda>i. create_table_sql (temporary_name root_name uuid4_hex i) schema keys False) ns) s
         \<Longrightarrow>
         temporary_table_loop (recording_db d) uuid4_hex root_name schema keys ns (s, log) =
           (Inl (Exception ''Too many attempts to get temp table.''),
            (run_state (pool d)
               (map (\<lambda>i. create_table_sql (temporary_name root_name uuid4_hex i) schema keys False)
                  ns) s,
             log @ map (\<lambda>i. (create_table_sql (temporary_name root_name uuid4_hex i) schema keys
                                False, None)) ns))"
proof (induction ns arbitrary: s log)
  case Nil
  show ?case by (simp add: raise_io_def)
next
  case (Cons i ns)
  let ?sql = "create_table_sql (temporary_name root_name uuid4_hex i) schema keys False"
  from Cons.prems have "fst (pool d ?sql None s) = Inl InternalError"
    by simp
  then obtain s' where r: "pool d ?sql None s = (Inl InternalError, s')"
    by (cases "pool d ?sql None s") auto
  from Cons.prems r have rest: "collides_along (pool d)
      (map (\<lambda>i. create_table_sql (temporary_name root_name uuid4_hex i) schema keys False) ns) s'"
    by simp
  show ?case
    using Cons.IH [OF rest, of "log @ [(?sql, None)]"]
    by (simp add: table_init_recording [OF ok] r)
qed

lemma loop_answer:
  assumes ok: "list_all (\<lambda>k. k \<in> set (map fst schema)) keys"
    and other: "a \<noteq> Inl InternalError"
  shows "collides_along (pool d)
           (map (\<lambda>i. create_table_sql (temporary_name root_name uuid4_hex i) schema keys False) pre) s
         \<Longrightarrow>
         fst (pool d (create_table_sql (temporary_name root_name uuid4_hex j) schema keys False) None
           (run_state (pool d)
              (map (\<lambda>i. create_table_sql (temporary_name root_name uuid4_hex i) schema keys False)
                 pre) s)) = a
         \<Longrightarrow>
         fst (temporary_table_loop (recording_db d) uuid4_hex root_name schema keys
                (pre @ j # post) (s, log)) =
           (case a of Inl e \<Rightarrow> Inl e
            | Inr cursor \<Rightarrow>
                Inr \<lparr>name = temporary_name root_name uuid4_hex j, table_db = recording_db d\<rparr>) \<and>
         snd (snd (temporary_table_loop (recording_db d) uuid4_hex root_name schema keys
                (pre @ j # post) (s, log))) =
           log @ map (\<lambda>i. (create_table_sql (temporary_name root_name uuid4_hex i) schema keys
                              False, None)) (pre @ [j])"
proof (induction pre arbitrary: s log)
  case Nil
  let ?sql = "create_table_sql (temporary_name root_name uuid4_hex j) schema keys False"
  from Nil.prems have "fst (pool d ?sql None s) = a"
    by simp
  then obtain s' where r: "pool d ?sql None s = (a, s')"
    by (cases "pool d ?sql None s") auto
  show ?case
    using other by (cases a) (simp_all add: table_init_recording [OF ok] r Let_def)
next
  case (Cons i pre)
  let ?sql = "create_table_sql (temporary_name root_name uuid4_hex i) schema keys False"
  from Cons.prems(1) have "fst (pool d ?sql None s) = Inl InternalError"
    by simp
  then obtain s' where r: "pool d ?sql None s = (Inl InternalError, s')"
    by (cases "pool d ?sql None s") auto
  from Cons.prems(1) r have rest: "collides_along (pool d)
      (map (\<lambda>i. create_table_sql (temporary_name root_name uuid4_hex i) schema keys False) pre) s'"
    by simp
  from Cons.prems(2) r have ans:
    "fst (pool d (create_table_sql (temporary_name root_name uuid4_hex j) schema keys False) None
       (run_state (pool d)
          (map (\<lambda>i. create_table_sql (temporary_name root_name uuid4_hex i) schema keys False)
             pre) s')) = a"
    by simp
  show ?case
    using Cons.IH [OF rest ans, of "log @ [(?sql, None)]"]
    by (simp add: table_init_recording [OF ok] r)
qed

lemma table_init_log:
  "length (snd (snd (Table_init (recording_db d) nm schema keys can_exist (s, log)))) \<le>
     Suc (length log)"
  by (simp add: Table_init_def create_table_def bind_io_def return_io_def raise_io_def
        recording_def split: prod.splits sum.splits)

lemma loop_log_bound:
  "length (snd (snd (temporary_table_loop (recording_db d) uuid4_hex root_name schema keys ns
      (s, log)))) \<le> length log + length ns"
proof (induction ns arbitrary: s log)
  case Nil
  show ?case by (simp add: raise_io_def)
next
  case (Cons i ns)
  let ?nm = "temporary_name root_name uuid4_hex i"
  obtain r s' log' where t:
    "Table_init (recording_db d) ?nm schema keys False (s, log) = (r, (s', log'))"
    by (metis surj_pair)
  have b: "length log' \<le> Suc (length log)"
    using table_init_log [of d ?nm schema keys False s log] by (simp add: t)
  show ?case
  proof (cases r)
    case (Inr tbl)
    then show ?thesis using b by (simp add: t)
  next
    case (Inl e)
    show ?thesis
    proof (cases "e = InternalError")
      case True
      have "length (snd (snd (temporary_table_loop (recording_db d) uuid4_hex root_name schema keys
              ns (s', log')))) \<le> length log' + length ns"
        by (rule Cons.IH)
      then show ?thesis using b Inl True by (simp add: t)
    next
      case False
      then show ?thesis using b Inl by (simp add: t)
    qed
  qed
qed

lemma loop_swallows:
  "fst (temporary_table_loop d uuid4_hex root_name schema keys ns s) \<noteq> Inl InternalError"
proof (induction ns arbitrary: s)
  case Nil
  show ?case by (simp add: raise_io_def)
next
  case (Cons i ns)
  show ?case
    using Cons.IH
    by (simp split: prod.splits sum.splits)
qed

lemma range_split: "j < n \<Longrightarrow> [0..<n] = [0..<j] @ j # [Suc j..<n]"
  by (metis le_add2 le_add_same_cancel2 less_imp_add_positive upt_add_eq_append upt_conv_Cons)

section \<open>The claims\<close>

text \<open>
  Claim C1. \<^verbatim>\<open>has_record\<close> should answer from the count that \<^verbatim>\<open>SELECT COUNT(1)\<close>
  produces. Here the server reports a count of 0 in the single result row, so
  \<^verbatim>\<open>cursor.execute\<close> returns 1 (one row), and \<^verbatim>\<open>has_record\<close> returns \<^verbatim>\<open>True\<close>: it
  reads the number of result rows, not the count.
\<close>

theorem has_record_zero_count:
  "has_record
     (jobs_table (answering \<lparr>rows = [[(''COUNT(1)'', PyInt 0)]], rowcount = 1, lastrowid = 0\<rparr>))
     [(''id'', PyInt 7)] () = (Inr True, ())"
  by (simp add: has_record_def jobs_table_def batch_db_def answering_def bind_io_def return_io_def)

text \<open>
  Claim C2, as amended. Every column name put into the generated SQL by the WHERE builder,
  by CREATE TABLE (columns and primary-key columns), by INSERT and by UPDATE is wrapped in
  backticks with every backtick inside it doubled first; every table name (CREATE TABLE,
  DROP TABLE, INSERT, UPDATE, SELECT, SELECT COUNT, DELETE) is wrapped in backticks as it
  is. Doubling keeps every other character and turns each backtick into two.
\<close>

theorem identifier_quoting:
  "fst (make_where_statement items) = join '' AND '' (map where_term items)
   \<and> create_table_sql nm schema keys can_exist =
       ''CREATE TABLE '' @ (if can_exist then ''IF NOT EXISTS'' else []) @ '' `'' @ nm @ ''` ( '' @
         join '', '' (map (\<lambda>nt. quote_identifier (fst nt) @ '' '' @ snd nt) schema) @ '' '' @
         (if keys = [] then []
          else '', PRIMARY KEY( '' @ join '', '' (map quote_identifier keys) @ '' )'') @ '')''
   \<and> drop_table_sql names =
       ''DROP TABLE IF EXISTS '' @ join '','' (map (\<lambda>n. ''`'' @ n @ ''`'') names)
   \<and> new_record_sql nm set_items =
       ''INSERT INTO `'' @ nm @ ''` ('' @
         join '', '' (map (\<lambda>kv. quote_identifier (fst kv)) set_items) @
         '') VALUES ('' @ join '', '' (map (\<lambda>kv. ''%s'') set_items) @ '')''
   \<and> update_record_sql nm items set_items =
       ''UPDATE `'' @ nm @ ''` SET '' @
         join '', '' (map (\<lambda>kv. quote_identifier (fst kv) @ '' = %s'') set_items) @
         '' WHERE '' @ fst (make_where_statement items)
   \<and> (\<exists>projection. get_record_sql nm items select_fields =
       ''SELECT '' @ projection @ '' FROM `'' @ nm @ ''` WHERE '' @ fst (make_where_statement items))
   \<and> has_record_sql nm items =
       ''SELECT COUNT(1) FROM `'' @ nm @ ''` WHERE '' @ fst (make_where_statement items)
   \<and> delete_record_sql nm items =
       ''DELETE FROM `'' @ nm @ ''` WHERE '' @ fst (make_where_statement items)
   \<and> quote_identifier nm = ''`'' @ double_backticks nm @ ''`''
   \<and> length (filter (\<lambda>c. c = CHR 0x60) (double_backticks nm)) =
       2 * length (filter (\<lambda>c. c = CHR 0x60) nm)
   \<and> filter (\<lambda>c. c \<noteq> CHR 0x60) (double_backticks nm) = filter (\<lambda>c. c \<noteq> CHR 0x60) nm"
proof (intro conjI)
  show "fst (make_where_statement items) = join '' AND '' (map where_term items)"
    by (simp add: make_where_statement_terms)
  show "create_table_sql nm schema keys can_exist =
       ''CREATE TABLE '' @ (if can_exist then ''IF NOT EXISTS'' else []) @ '' `'' @ nm @ ''` ( '' @
         join '', '' (map (\<lambda>nt. quote_identifier (fst nt) @ '' '' @ snd nt) schema) @ '' '' @
         (if keys = [] then []
          else '', PRIMARY KEY( '' @ join '', '' (map quote_identifier keys) @ '' )'') @ '')''"
    by (simp add: create_table_sql_def str_replace_backtick quote_identifier_def [abs_def] split_def)
  show "drop_table_sql names =
       ''DROP TABLE IF EXISTS '' @ join '','' (map (\<lambda>n. ''`'' @ n @ ''`'') names)"
    by (simp add: drop_table_sql_def)
  show "new_record_sql nm set_items =
       ''INSERT INTO `'' @ nm @ ''` ('' @
         join '', '' (map (\<lambda>kv. quote_identifier (fst kv)) set_items) @
         '') VALUES ('' @ join '', '' (map (\<lambda>kv. ''%s'') set_items) @ '')''"
    by (simp add: new_record_sql_def str_replace_backtick quote_identifier_def comp_def)
  show "update_record_sql nm items set_items =
       ''UPDATE `'' @ nm @ ''` SET '' @
         join '', '' (map (\<lambda>kv. quote_identifier (fst kv) @ '' = %s'') set_items) @
         '' WHERE '' @ fst (make_where_statement items)"
    by (simp add: update_record_sql_def str_replace_backtick quote_identifier_def split_def)
  show "\<exists>projection. get_record_sql nm items select_fields =
       ''SELECT '' @ projection @ '' FROM `'' @ nm @ ''` WHERE '' @ fst (make_where_statement items)"
    by (simp add: get_record_sql_def split_def)
  show "has_record_sql nm items =
       ''SELECT COUNT(1) FROM `'' @ nm @ ''` WHERE '' @ fst (make_where_statement items)"
    by (simp add: has_record_sql_def split_def)
  show "delete_record_sql nm items =
       ''DELETE FROM `'' @ nm @ ''` WHERE '' @ fst (make_where_statement items)"
    by (simp add: delete_record_sql_def split_def)
  show "quote_identifier nm = ''`'' @ double_backticks nm @ ''`''"
    by (simp add: quote_identifier_def)
  show "length (filter (\<lambda>c. c = CHR 0x60) (double_backticks nm)) =
       2 * length (filter (\<lambda>c. c = CHR 0x60) nm)"
    by (rule double_backticks_count)
  show "filter (\<lambda>c. c \<noteq> CHR 0x60) (double_backticks nm) = filter (\<lambda>c. c \<noteq> CHR 0x60) nm"
    by (rule double_backticks_others)
qed

text \<open>
  Claim C2 as stated fails: a backtick inside a table name is not doubled, and the projected
  column list of a select is joined with commas without any quoting.
\<close>

theorem table_name_not_escaped:
  "delete_record_sql ''a`b'' [] = ''DELETE FROM `a`b` WHERE ''
   \<and> delete_record_sql ''a`b'' [] \<noteq> ''DELETE FROM '' @ quote_identifier ''a`b'' @ '' WHERE ''
   \<and> get_record_sql ''jobs'' [] (Some [''id'', ''na`me'']) = ''SELECT id,na`me FROM `jobs` WHERE ''"
  by (simp add: delete_record_sql_def get_record_sql_def make_where_statement_def
        quote_identifier_def double_backticks_def)

text \<open>
  Claim C3. When the primary-key columns are schema keys and each of the five creation
  statements is answered with \<^verbatim>\<open>InternalError\<close> at the state the run has reached,
  \<^verbatim>\<open>create_temporary_table\<close> sends exactly those five statements, one per round of
  \<^verbatim>\<open>range(5)\<close>, and raises the too-many-attempts exception. When round \<open>j\<close> is answered
  with any other exception \<open>e\<close> after \<open>j\<close> collisions, \<open>e\<close> comes out and nothing is sent
  after round \<open>j\<close>; when it is answered with a cursor, the table of round \<open>j\<close> is returned.
  A failed assertion comes out at once, with nothing sent. Whatever the server does, at most
  five statements are sent and \<^verbatim>\<open>InternalError\<close> never comes out.
\<close>

theorem create_temporary_table_attempts:
  "((\<forall>k\<in>set keys. k \<in> fst ` set schema) \<and>
    collides_along (pool d)
      (map (\<lambda>i. create_table_sql (temporary_name root_name uuid4_hex i) schema keys False) [0..<5]) s
    \<longrightarrow>
      outcome (create_temporary_table (recording_db d) uuid4_hex root_name schema keys) s =
        Inl (Exception ''Too many attempts to get temp table.'') \<and>
      sent (create_temporary_table (recording_db d) uuid4_hex root_name schema keys) s =
        map (\<lambda>i. (create_table_sql (temporary_name root_name uuid4_hex i) schema keys False, None))
          [0..<5])
   \<and> ((\<forall>k\<in>set keys. k \<in> fst ` set schema) \<and> j < 5 \<and> e \<noteq> InternalError \<and>
    collides_along (pool d)
      (map (\<lambda>i. create_table_sql (temporary_name root_name uuid4_hex i) schema keys False) [0..<j]) s
    \<and>
    fst (pool d (create_table_sql (temporary_name root_name uuid4_hex j) schema keys False) None
      (run_state (pool d)
         (map (\<lambda>i. create_table_sql (temporary_name root_name uuid4_hex i) schema keys False)
            [0..<j]) s)) = Inl e
    \<longrightarrow>
      outcome (create_temporary_table (recording_db d) uuid4_hex root_name schema keys) s = Inl e \<and>
      sent (create_temporary_table (recording_db d) uuid4_hex root_name schema keys) s =
        map (\<lambda>i. (create_table_sql (temporary_name root_name uuid4_hex i) schema keys False, None))
          [0..<Suc j])
   \<and> ((\<forall>k\<in>set keys. k \<in> fst ` set schema) \<and> j < 5 \<and>
    collides_along (pool d)
      (map (\<lambda>i. create_table_sql (temporary_name root_name uuid4_hex i) schema keys False) [0..<j]) s
    \<and>
    fst (pool d (create_table_sql (temporary_name root_name uuid4_hex j) schema keys False) None
      (run_state (pool d)
         (map (\<lambda>i. create_table_sql (temporary_name root_name uuid4_hex i) schema keys False)
            [0..<j]) s)) = Inr cursor
    \<longrightarrow>
      outcome (create_temporary_table (recording_db d) uuid4_hex root_name schema keys) s =
        Inr \<lparr>name = temporary_name root_name uuid4_hex j, table_db = recording_db d\<rparr> \<and>
      sent (create_temporary_table (recording_db d) uuid4_hex root_name schema keys) s =
        map (\<lambda>i. (create_table_sql (temporary_name root_name uuid4_hex i) schema keys False, None))
          [0..<Suc j])
   \<and> ((\<exists>k\<in>set keys. k \<notin> fst ` set schema) \<longrightarrow>
      outcome (create_temporary_table (recording_db d) uuid4_hex root_name schema keys) s =
        Inl AssertionError \<and>
      sent (create_temporary_table (recording_db d) uuid4_hex root_name schema keys) s = [])
   \<and> length (sent (create_temporary_table (recording_db d) uuid4_hex root_name schema keys) s) \<le> 5
   \<and> outcome (create_temporary_table (recording_db d) uuid4_hex root_name schema keys) s \<noteq>
       Inl InternalError"
proof (intro conjI impI; (elim conjE)?)
  assume k: "\<forall>k\<in>set keys. k \<in> fst ` set schema"
    and c: "collides_along (pool d)
      (map (\<lambda>i. create_table_sql (temporary_name root_name uuid4_hex i) schema keys False) [0..<5]) s"
  from k have ok: "list_all (\<lambda>k. k \<in> set (map fst schema)) keys"
    by (simp add: list_all_iff)
  note l = loop_all_collide [OF ok c, of "[]"]
  show "outcome (create_temporary_table (recording_db d) uuid4_hex root_name schema keys) s =
        Inl (Exception ''Too many attempts to get temp table.'')"
    by (simp add: outcome_def create_temporary_table_def l)
  show "sent (create_temporary_table (recording_db d) uuid4_hex root_name schema keys) s =
        map (\<lambda>i. (create_table_sql (temporary_name root_name uuid4_hex i) schema keys False, None))
          [0..<5]"
    by (simp add: sent_def create_temporary_table_def l)
next
  assume k: "\<forall>k\<in>set keys. k \<in> fst ` set schema"
    and j: "j < 5" and e: "e \<noteq> InternalError"
    and c: "collides_along (pool d)
      (map (\<lambda>i. create_table_sql (temporary_name root_name uuid4_hex i) schema keys False) [0..<j]) s"
    and f: "fst (pool d (create_table_sql (temporary_name root_name uuid4_hex j) schema keys False)
      None (run_state (pool d)
         (map (\<lambda>i. create_table_sql (temporary_name root_name uuid4_hex i) schema keys False)
            [0..<j]) s)) = Inl e"
  from k have ok: "list_all (\<lambda>k. k \<in> set (map fst schema)) keys"
    by (simp add: list_all_iff)
  from e have a: "(Inl e :: exn + response) \<noteq> Inl InternalError"
    by simp
  note l = loop_answer [OF ok a c f, of "[Suc j..<5]" "[]"]
  have sp: "[0..<5] = [0..<j] @ j # [Suc j..<5]"
    using j by (rule range_split)
  show "outcome (create_temporary_table (recording_db d) uuid4_hex root_name schema keys) s = Inl e"
    using l by (simp add: outcome_def create_temporary_table_def sp del: upt_Suc)
  show "sent (create_temporary_table (recording_db d) uuid4_hex root_name schema keys) s =
        map (\<lambda>i. (create_table_sql (temporary_name root_name uuid4_hex i) schema keys False, None))
          [0..<Suc j]"
    using l by (simp add: sent_def create_temporary_table_def sp)
next
  assume k: "\<forall>k\<in>set keys. k \<in> fst ` set schema"
    and j: "j < 5"
    and c: "collides_along (pool d)
      (map (\<lambda>i. create_table_sql (temporary_name root_name uuid4_hex i) schema keys False) [0..<j]) s"
    and f: "fst (pool d (create_table_sql (temporary_name root_name uuid4_hex j) schema keys False)
      None (run_state (pool d)
         (map (\<lambda>i. create_table_sql (temporary_name root_name uuid4_hex i) schema keys False)
            [0..<j]) s)) = Inr cursor"
  from k have ok: "list_all (\<lambda>k. k \<in> set (map fst schema)) keys"
    by (simp add: list_all_iff)
  have a: "(Inr cursor :: exn + response) \<noteq> Inl InternalError"
    by simp
  note l = loop_answer [OF ok a c f, of "[Suc j..<5]" "[]"]
  have sp: "[0..<5] = [0..<j] @ j # [Suc j..<5]"
    using j by (rule range_split)
  show "outcome (create_temporary_table (recording_db d) uuid4_hex root_name schema keys) s =
        Inr \<lparr>name = temporary_name root_name uuid4_hex j, table_db = recording_db d\<rparr>"
    using l by (simp add: outcome_def create_temporary_table_def sp del: upt_Suc)
  show "sent (create_temporary_table (recording_db d) uuid4_hex root_name schema keys) s =
        map (\<lambda>i. (create_table_sql (temporary_name root_name uuid4_hex i) schema keys False, None))
          [0..<Suc j]"
    using l by (simp add: sent_def create_temporary_table_def sp)
next
  assume "\<exists>k\<in>set keys. k \<notin> fst ` set schema"
  then have n: "\<not> list_all (\<lambda>k. k \<in> set (map fst schema)) keys"
    by (auto simp: list_all_iff)
  have u: "[0..<5] = 0 # [1..<5]"
    by (simp add: upt_conv_Cons)
  have r: "create_temporary_table (recording_db d) uuid4_hex root_name schema keys (s, []) =
           (Inl AssertionError, (s, []))"
    by (simp only: create_temporary_table_def u temporary_table_loop.simps
          table_init_assertion [OF n]) simp
  show "outcome (create_temporary_table (recording_db d) uuid4_hex root_name schema keys) s =
        Inl AssertionError"
    by (simp add: outcome_def r)
  show "sent (create_temporary_table (recording_db d) uuid4_hex root_name schema keys) s = []"
    by (simp add: sent_def r)
next
  show "length (sent (create_temporary_table (recording_db d) uuid4_hex root_name schema keys) s)
        \<le> 5"
    using loop_log_bound [of d uuid4_hex root_name schema keys "[0..<5]" s "[]"]
    by (simp add: sent_def create_temporary_table_def)
next
  show "outcome (create_temporary_table (recording_db d) uuid4_hex root_name schema keys) s \<noteq>
        Inl InternalError"
    by (simp add: outcome_def create_temporary_table_def loop_swallows)
qed

theorem create_temporary_table_attempts_witness:
  "outcome (create_temporary_table (recording_db (batch_db existing))
      letters_uuid ''tmp'' [(''id'', ''INT'')] [''id''])
      [''CREATE TABLE  `tmp-a3f09c1e` ( `id` INT , PRIMARY KEY( `id` ))'',
       ''CREATE TABLE  `tmp-b81e44d0` ( `id` INT , PRIMARY KEY( `id` ))'',
       ''CREATE TABLE  `tmp-c0ffee00` ( `id` INT , PRIMARY KEY( `id` ))'',
       ''CREATE TABLE  `tmp-d4c3b2a1` ( `id` INT , PRIMARY KEY( `id` ))'',
       ''CREATE TABLE  `tmp-e5f60718` ( `id` INT , PRIMARY KEY( `id` ))''] =
     Inl (Exception ''Too many attempts to get temp table.'')
   \<and> sent (create_temporary_table (recording_db (batch_db existing))
      letters_uuid ''tmp'' [(''id'', ''INT'')] [''id''])
      [''CREATE TABLE  `tmp-a3f09c1e` ( `id` INT , PRIMARY KEY( `id` ))'',
       ''CREATE TABLE  `tmp-b81e44d0` ( `id` INT , PRIMARY KEY( `id` ))'',
       ''CREATE TABLE  `tmp-c0ffee00` ( `id` INT , PRIMARY KEY( `id` ))'',
       ''CREATE TABLE  `tmp-d4c3b2a1` ( `id` INT , PRIMARY KEY( `id` ))'',
       ''CREATE TABLE  `tmp-e5f60718` ( `id` INT , PRIMARY KEY( `id` ))''] =
     [(''CREATE TABLE  `tmp-a3f09c1e` ( `id` INT , PRIMARY KEY( `id` ))'', None),
      (''CREATE TABLE  `tmp-b81e44d0` ( `id` INT , PRIMARY KEY( `id` ))'', None),
      (''CREATE TABLE  `tmp-c0ffee00` ( `id` INT , PRIMARY KEY( `id` ))'', None),
      (''CREATE TABLE  `tmp-d4c3b2a1` ( `id` INT , PRIMARY KEY( `id` ))'', None),
      (''CREATE TABLE  `tmp-e5f60718` ( `id` INT , PRIMARY KEY( `id` ))'', None)]
   \<and> outcome (create_temporary_table (recording_db (batch_db existing))
      letters_uuid ''tmp'' [(''id'', ''INT'')] [''id''])
      [''CREATE TABLE  `tmp-a3f09c1e` ( `id` INT , PRIMARY KEY( `id` ))'',
       ''CREATE TABLE  `tmp-b81e44d0` ( `id` INT , PRIMARY KEY( `id` ))''] =
     Inr \<lparr>name = ''tmp-c0ffee00'', table_db = recording_db (batch_db existing)\<rparr>
   \<and> sent (create_temporary_table (recording_db (batch_db existing))
      letters_uuid ''tmp'' [(''id'', ''INT'')] [''id''])
      [''CREATE TABLE  `tmp-a3f09c1e` ( `id` INT , PRIMARY KEY( `id` ))'',
       ''CREATE TABLE  `tmp-b81e44d0` ( `id` INT , PRIMARY KEY( `id` ))''] =
     [(''CREATE TABLE  `tmp-a3f09c1e` ( `id` INT , PRIMARY KEY( `id` ))'', None),
      (''CREATE TABLE  `tmp-b81e44d0` ( `id` INT , PRIMARY KEY( `id` ))'', None),
      (''CREATE TABLE  `tmp-c0ffee00` ( `id` INT , PRIMARY KEY( `id` ))'', None)]
   \<and> outcome (create_temporary_table
      (recording_db (batch_db (failing_at
         ''CREATE TABLE  `tmp-b81e44d0` ( `id` INT , PRIMARY KEY( `id` ))'' (DriverError ''denied''))))
      letters_uuid ''tmp'' [(''id'', ''INT'')] [''id'']) () = Inl (DriverError ''denied'')
   \<and> sent (create_temporary_table
      (recording_db (batch_db (failing_at
         ''CREATE TABLE  `tmp-b81e44d0` ( `id` INT , PRIMARY KEY( `id` ))'' (DriverError ''denied''))))
      letters_uuid ''tmp'' [(''id'', ''INT'')] [''id'']) () =
     [(''CREATE TABLE  `tmp-a3f09c1e` ( `id` INT , PRIMARY KEY( `id` ))'', None),
      (''CREATE TABLE  `tmp-b81e44d0` ( `id` INT , PRIMARY KEY( `id` ))'', None)]
   \<and> outcome (create_temporary_table (recording_db (batch_db (failing InternalError)))
      letters_uuid ''tmp'' [(''id'', ''INT'')] [''nope'']) () = Inl AssertionError
   \<and> sent (create_temporary_table (recording_db (batch_db (failing InternalError)))
      letters_uuid ''tmp'' [(''id'', ''INT'')] [''nope'']) () = []"
  using create_temporary_table_attempts
      [where keys = "[''id'']" and schema = "[(''id'', ''INT'')]"
         and d = "batch_db existing" and root_name = "''tmp''" and uuid4_hex = letters_uuid
         and s = "[''CREATE TABLE  `tmp-a3f09c1e` ( `id` INT , PRIMARY KEY( `id` ))'',
                   ''CREATE TABLE  `tmp-b81e44d0` ( `id` INT , PRIMARY KEY( `id` ))'',
                   ''CREATE TABLE  `tmp-c0ffee00` ( `id` INT , PRIMARY KEY( `id` ))'',
                   ''CREATE TABLE  `tmp-d4c3b2a1` ( `id` INT , PRIMARY KEY( `id` ))'',
                   ''CREATE TABLE  `tmp-e5f60718` ( `id` INT , PRIMARY KEY( `id` ))'']"
         and j = 0 and e = InternalError
         and cursor = "\<lparr>rows = [], rowcount = 0, lastrowid = 0\<rparr>"]
    create_temporary_table_attempts
      [where keys = "[''id'']" and schema = "[(''id'', ''INT'')]"
         and d = "batch_db existing" and root_name = "''tmp''" and uuid4_hex = letters_uuid
         and s = "[''CREATE TABLE  `tmp-a3f09c1e` ( `id` INT , PRIMARY KEY( `id` ))'',
                   ''CREATE TABLE  `tmp-b81e44d0` ( `id` INT , PRIMARY KEY( `id` ))'']"
         and j = 2 and e = InternalError
         and cursor = "\<lparr>rows = [], rowcount = 0, lastrowid = 0\<rparr>"]
    create_temporary_table_attempts
      [where keys = "[''id'']" and schema = "[(''id'', ''INT'')]"
         and d = "batch_db (failing_at
           ''CREATE TABLE  `tmp-b81e44d0` ( `id` INT , PRIMARY KEY( `id` ))'' (DriverError ''denied''))"
         and root_name = "''tmp''" and uuid4_hex = letters_uuid and s = "()"
         and j = 1 and e = "DriverError ''denied''"
         and cursor = "\<lparr>rows = [], rowcount = 0, lastrowid = 0\<rparr>"]
    create_temporary_table_attempts
      [where keys = "[''nope'']" and schema = "[(''id'', ''INT'')]"
         and d = "batch_db (failing InternalError)" and root_name = "''tmp''"
         and uuid4_hex = letters_uuid and s = "()" and j = 0 and e = InternalError
         and cursor = "\<lparr>rows = [], rowcount = 0, lastrowid = 0\<rparr>"]
  by (simp add: batch_db_def failing_def failing_at_def existing_def letters_uuid_def
        temporary_name_def create_table_sql_def str_replace_def upt_conv_Cons)

text \<open>
  Claim C4. For a filter mapping whose values are all scalars the builder returns one term
  \<open>`column` = %s\<close> per entry, joined by \<open>AND\<close> in iteration order, and the values in the
  same order. (This holds for the empty mapping too.)
\<close>

theorem make_where_statement_scalars:
  assumes "\<forall>kv \<in> set items. \<not> is_list (snd kv)"
  shows "make_where_statement items =
           (join '' AND '' (map (\<lambda>kv. quote_identifier (fst kv) @ '' = %s'') items), map snd items)"
proof -
  have t: "map where_term items = map (\<lambda>kv. quote_identifier (fst kv) @ '' = %s'') items"
    using assms by (auto simp: where_term_def is_list_def split: prod.splits)
  have b: "concat (map where_bound items) = map snd items"
    using assms by (induction items) (auto simp: where_bound_def is_list_def)
  show ?thesis by (simp add: make_where_statement_terms t b)
qed

theorem make_where_statement_scalars_witness:
  "\<not> is_list (PyInt 1) \<and> \<not> is_list (PyStr ''a'') \<and>
   make_where_statement [(''id'', PyInt 1), (''na`me'', PyStr ''a'')] =
     (''`id` = %s AND `na``me` = %s'', [PyInt 1, PyStr ''a''])"
  using make_where_statement_scalars [of "[(''id'', PyInt 1), (''na`me'', PyStr ''a'')]"]
  by (simp add: is_list_def quote_identifier_def double_backticks_def)

text \<open>
  Claim C5. An entry whose value is an empty list contributes the term \<open>FALSE\<close> and no
  bound value, whatever comes before and after it; an entry whose value is a non-empty list
  contributes \<open>`column` IN %s\<close> and the whole list as one bound value. The template is
  the template of the entries before, the term, and the template of the entries after,
  with \<open>AND\<close> between the parts that are there; the bound values follow the same order.
\<close>

theorem make_where_statement_lists:
  "make_where_statement (pre @ (k, PyList []) # post) =
     (join '' AND '' (fst (where_loop pre [] []) @ ''FALSE'' # fst (where_loop post [] [])),
      snd (where_loop pre [] []) @ snd (where_loop post [] []))
   \<and> make_where_statement (pre @ (k, PyList (x # xs)) # post) =
     (join '' AND '' (fst (where_loop pre [] []) @ (quote_identifier k @ '' IN %s'')
                        # fst (where_loop post [] [])),
      snd (where_loop pre [] []) @ PyList (x # xs) # snd (where_loop post [] []))
   \<and> make_where_statement (pre @ (k, PyList []) # post) =
     ((if pre = [] then [] else fst (make_where_statement pre) @ '' AND '') @ ''FALSE'' @
      (if post = [] then [] else '' AND '' @ fst (make_where_statement post)),
      snd (make_where_statement pre) @ snd (make_where_statement post))
   \<and> make_where_statement (pre @ (k, PyList (x # xs)) # post) =
     ((if pre = [] then [] else fst (make_where_statement pre) @ '' AND '') @
      ''`'' @ double_backticks k @ ''` IN %s'' @
      (if post = [] then [] else '' AND '' @ fst (make_where_statement post)),
      snd (make_where_statement pre) @ PyList (x # xs) # snd (make_where_statement post))"
proof (intro conjI)
  show "make_where_statement (pre @ (k, PyList []) # post) =
     (join '' AND '' (fst (where_loop pre [] []) @ ''FALSE'' # fst (where_loop post [] [])),
      snd (where_loop pre [] []) @ snd (where_loop post [] []))"
    by (simp add: make_where_statement_def where_loop_split where_term_def where_bound_def
          is_list_def)
  show "make_where_statement (pre @ (k, PyList (x # xs)) # post) =
     (join '' AND '' (fst (where_loop pre [] []) @ (quote_identifier k @ '' IN %s'')
                        # fst (where_loop post [] [])),
      snd (where_loop pre [] []) @ PyList (x # xs) # snd (where_loop post [] []))"
    by (simp add: make_where_statement_def where_loop_split where_term_def where_bound_def
          is_list_def)
  show "make_where_statement (pre @ (k, PyList []) # post) =
     ((if pre = [] then [] else fst (make_where_statement pre) @ '' AND '') @ ''FALSE'' @
      (if post = [] then [] else '' AND '' @ fst (make_where_statement post)),
      snd (make_where_statement pre) @ snd (make_where_statement post))"
    by (simp add: make_where_statement_terms join_around where_term_def where_bound_def)
  show "make_where_statement (pre @ (k, PyList (x # xs)) # post) =
     ((if pre = [] then [] else fst (make_where_statement pre) @ '' AND '') @
      ''`'' @ double_backticks k @ ''` IN %s'' @
      (if post = [] then [] else '' AND '' @ fst (make_where_statement post)),
      snd (make_where_statement pre) @ PyList (x # xs) # snd (make_where_statement post))"
    by (simp add: make_where_statement_terms join_around where_term_def where_bound_def
          is_list_def quote_identifier_def)
qed

theorem make_where_statement_lists_witness:
  "make_where_statement [(''ids'', PyList [])] = (''FALSE'', [])
   \<and> make_where_statement [(''ids'', PyList [PyInt 2, PyInt 3])] =
       (''`ids` IN %s'', [PyList [PyInt 2, PyInt 3]])
   \<and> make_where_statement
       [(''state'', PyStr ''Ready''), (''ids'', PyList []), (''ta`g'', PyList [PyInt 2, PyInt 3])] =
       (''`state` = %s AND FALSE AND `ta``g` IN %s'', [PyStr ''Ready'', PyList [PyInt 2, PyInt 3]])"
  using make_where_statement_lists [of "[]" "''ids''" "[]" "PyInt 2" "[PyInt 3]"]
    make_where_statement_lists
      [of "[(''state'', PyStr ''Ready'')]" "''ids''" "[(''ta`g'', PyList [PyInt 2, PyInt 3])]"
          "PyInt 0" "[]"]
  by (simp add: make_where_statement_def str_replace_def double_backticks_def)

text \<open>
  Claim C6. With an empty \<^verbatim>\<open>set_items\<close>, \<^verbatim>\<open>update_record\<close> returns normally, leaves
  the server state as it was and sends nothing, whatever the filter is. Otherwise it sends
  one UPDATE whose arguments are the SET values followed by the bound values of the WHERE
  clause.
\<close>

theorem update_record_statements:
  "(set_items = [] \<longrightarrow>
      update_record t where_items set_items s = (Inr (), s) \<and>
      sent (update_record (recording_table t) where_items set_items) s = [])
   \<and> (set_items \<noteq> [] \<longrightarrow>
      sent (update_record (recording_table t) where_items set_items) s =
        [(''UPDATE `'' @ name t @ ''` SET '' @
            join '', '' (map (\<lambda>kv. quote_identifier (fst kv) @ '' = %s'') set_items) @
            '' WHERE '' @ fst (make_where_statement where_items),
          Some (map snd set_items @ snd (make_where_statement where_items)))])"
proof (intro conjI impI)
  assume "set_items = []"
  then show "update_record t where_items set_items s = (Inr (), s)"
    by (simp add: update_record_def return_io_def)
next
  assume "set_items = []"
  then show "sent (update_record (recording_table t) where_items set_items) s = []"
    by (simp add: update_record_def return_io_def sent_def)
next
  assume ne: "set_items \<noteq> []"
  obtain wt wv where w: "make_where_statement where_items = (wt, wv)"
    by (cases "make_where_statement where_items")
  show "sent (update_record (recording_table t) where_items set_items) s =
        [(''UPDATE `'' @ name t @ ''` SET '' @
            join '', '' (map (\<lambda>kv. quote_identifier (fst kv) @ '' = %s'') set_items) @
            '' WHERE '' @ fst (make_where_statement where_items),
          Some (map snd set_items @ snd (make_where_statement where_items)))]"
    using ne by (simp add: update_record_def update_record_sql_def w sent_step
        str_replace_backtick quote_identifier_def split_def)
qed

theorem update_record_statements_witness:
  "update_record (jobs_table (failing (DriverError ''down''))) [(''id'', PyInt 1)] [] () = (Inr (), ())
   \<and> sent (update_record (recording_table (jobs_table (failing (DriverError ''down''))))
        [(''id'', PyInt 1)] []) () = []
   \<and> sent (update_record
        (recording_table (jobs_table (answering \<lparr>rows = [], rowcount = 1, lastrowid = 0\<rparr>)))
        [(''id'', PyInt 1)] [(''state'', PyStr ''Ready''), (''exit`code'', PyInt 0)]) () =
       [(''UPDATE `jobs` SET `state` = %s, `exit``code` = %s WHERE `id` = %s'',
         Some [PyStr ''Ready'', PyInt 0, PyInt 1])]"
  using update_record_statements
      [of "[]" "jobs_table (failing (DriverError ''down''))" "[(''id'', PyInt 1)]" "()"]
    update_record_statements
      [of "[(''state'', PyStr ''Ready''), (''exit`code'', PyInt 0)]"
          "jobs_table (answering \<lparr>rows = [], rowcount = 1, lastrowid = 0\<rparr>)"
          "[(''id'', PyInt 1)]" "()"]
  by (simp add: jobs_table_def make_where_statement_def str_replace_def
        quote_identifier_def double_backticks_def)

text \<open>
  Claim C7. When the catalog query for (database name, table name) executes,
  \<^verbatim>\<open>has_table\<close> returns whether it produced a row. (An exception of the driver
  propagates.)
\<close>

theorem has_table_iff_row:
  assumes "pool d (''SELECT * FROM INFORMATION_SCHEMA.tables WHERE TABLE_SCHEMA = %s AND TABLE_NAME = %s'')
             (Some [PyStr (db d), PyStr nm]) s = (Inr cursor, s')"
  shows "has_table d nm s = (Inr (rows cursor \<noteq> []), s')"
  using assms by (simp add: has_table_def bind_io_def return_io_def fetchone_def split: list.splits)

theorem has_table_iff_row_witness:
  "has_table
     (batch_db (answering \<lparr>rows = [[(''TABLE_NAME'', PyStr ''jobs'')]], rowcount = 1, lastrowid = 0\<rparr>))
     ''jobs'' () = (Inr True, ())
   \<and> has_table (batch_db (answering \<lparr>rows = [], rowcount = 0, lastrowid = 0\<rparr>))
     ''jobs'' () = (Inr False, ())"
  using has_table_iff_row
      [of "batch_db (answering \<lparr>rows = [[(''TABLE_NAME'', PyStr ''jobs'')]], rowcount = 1, lastrowid = 0\<rparr>)"
          "''jobs''" "()"
          "\<lparr>rows = [[(''TABLE_NAME'', PyStr ''jobs'')]], rowcount = 1, lastrowid = 0\<rparr>" "()"]
    has_table_iff_row
      [of "batch_db (answering \<lparr>rows = [], rowcount = 0, lastrowid = 0\<rparr>)" "''jobs''" "()"
          "\<lparr>rows = [], rowcount = 0, lastrowid = 0\<rparr>" "()"]
  by (simp add: batch_db_def answering_def)

text \<open>
  Claim C8. A primary-key column that is not a key of the schema makes \<^verbatim>\<open>create_table\<close>
  fail its assertion before anything is sent. Otherwise it sends one CREATE TABLE, with a
  PRIMARY KEY clause exactly when the key list is non-empty.
\<close>

theorem create_table_precondition:
  "((\<exists>k\<in>set keys. k \<notin> fst ` set schema) \<longrightarrow>
      create_table d nm schema keys can_exist s = (Inl AssertionError, s) \<and>
      sent (create_table (recording_db d) nm schema keys can_exist) s = [])
   \<and> ((\<forall>k\<in>set keys. k \<in> fst ` set schema) \<longrightarrow>
      sent (create_table (recording_db d) nm schema keys can_exist) s =
        [(''CREATE TABLE '' @ (if can_exist then ''IF NOT EXISTS'' else []) @ '' `'' @ nm @ ''` ( '' @
            join '', '' (map (\<lambda>nt. quote_identifier (fst nt) @ '' '' @ snd nt) schema) @ '' '' @
            (if keys = [] then []
             else '', PRIMARY KEY( '' @ join '', '' (map quote_identifier keys) @ '' )'') @ '')'',
          None)])"
proof (intro conjI impI)
  assume "\<exists>k\<in>set keys. k \<notin> fst ` set schema"
  then have n: "\<not> list_all (\<lambda>k. k \<in> set (map fst schema)) keys"
    by (auto simp: list_all_iff)
  show "create_table d nm schema keys can_exist s = (Inl AssertionError, s)"
    using n by (simp add: create_table_def raise_io_def)
  show "sent (create_table (recording_db d) nm schema keys can_exist) s = []"
    using n by (simp add: create_table_def raise_io_def sent_def)
next
  assume "\<forall>k\<in>set keys. k \<in> fst ` set schema"
  then have y: "list_all (\<lambda>k. k \<in> set (map fst schema)) keys"
    by (auto simp: list_all_iff)
  show "sent (create_table (recording_db d) nm schema keys can_exist) s =
        [(''CREATE TABLE '' @ (if can_exist then ''IF NOT EXISTS'' else []) @ '' `'' @ nm @ ''` ( '' @
            join '', '' (map (\<lambda>nt. quote_identifier (fst nt) @ '' '' @ snd nt) schema) @ '' '' @
            (if keys = [] then []
             else '', PRIMARY KEY( '' @ join '', '' (map quote_identifier keys) @ '' )'') @ '')'',
          None)]"
    using y by (simp add: create_table_def sent_step create_table_sql_def
        str_replace_backtick quote_identifier_def [abs_def] split_def)
qed

theorem create_table_precondition_witness:
  "create_table (batch_db (answering \<lparr>rows = [], rowcount = 0, lastrowid = 0\<rparr>))
     ''jobs'' [(''id'', ''INT'')] [''nope''] True () = (Inl AssertionError, ())
   \<and> sent (create_table (recording_db (batch_db (answering \<lparr>rows = [], rowcount = 0, lastrowid = 0\<rparr>)))
        ''jobs'' [(''id'', ''INT'')] [''nope''] True) () = []
   \<and> sent (create_table (recording_db (batch_db (answering \<lparr>rows = [], rowcount = 0, lastrowid = 0\<rparr>)))
        ''jobs'' [(''id'', ''INT''), (''name'', ''VARCHAR(255)'')] [''id''] True) () =
       [(''CREATE TABLE IF NOT EXISTS `jobs` ( `id` INT, `name` VARCHAR(255) , PRIMARY KEY( `id` ))'', None)]
   \<and> sent (create_table (recording_db (batch_db (answering \<lparr>rows = [], rowcount = 0, lastrowid = 0\<rparr>)))
        ''jobs'' [(''id'', ''INT'')] [] False) () =
       [(''CREATE TABLE  `jobs` ( `id` INT )'', None)]"
  using create_table_precondition
      [of "[''nope'']" "[(''id'', ''INT'')]"
          "batch_db (answering \<lparr>rows = [], rowcount = 0, lastrowid = 0\<rparr>)" "''jobs''" True "()"]
    create_table_precondition
      [of "[''id'']" "[(''id'', ''INT''), (''name'', ''VARCHAR(255)'')]"
          "batch_db (answering \<lparr>rows = [], rowcount = 0, lastrowid = 0\<rparr>)" "''jobs''" True "()"]
    create_table_precondition
      [of "[]" "[(''id'', ''INT'')]"
          "batch_db (answering \<lparr>rows = [], rowcount = 0, lastrowid = 0\<rparr>)" "''jobs''" False "()"]
  by (simp add: quote_identifier_def double_backticks_def)

text \<open>
  Claim C9. For the empty filter mapping the builder returns the empty string as the
  predicate template and an empty list of bound values.
\<close>

theorem make_where_statement_empty: "make_where_statement [] = ('''', [])"
  by (simp add: make_where_statement_def)

text \<open>
  Claim C10. With the empty filter mapping, \<^verbatim>\<open>get_record\<close>, \<^verbatim>\<open>has_record\<close>,
  \<^verbatim>\<open>delete_record\<close> and \<^verbatim>\<open>update_record\<close> (with something to set) still send a
  statement that ends in the keyword WHERE followed by the empty predicate.
\<close>

theorem empty_filter_where_clause:
  "(select_fields \<noteq> Some [] \<longrightarrow>
      sent (get_record (recording_table t) [] select_fields) s =
        [(''SELECT '' @ (case select_fields of None \<Rightarrow> ''*'' | Some fs \<Rightarrow> join '','' fs) @
            '' FROM `'' @ name t @ ''` WHERE '', Some [])])
   \<and> sent (has_record (recording_table t) []) s =
        [(''SELECT COUNT(1) FROM `'' @ name t @ ''` WHERE '', Some [])]
   \<and> sent (delete_record (recording_table t) []) s =
        [(''DELETE FROM `'' @ name t @ ''` WHERE '', Some [])]
   \<and> (set_items \<noteq> [] \<longrightarrow>
      sent (update_record (recording_table t) [] set_items) s =
        [(''UPDATE `'' @ name t @ ''` SET '' @
            join '', '' (map (\<lambda>kv. quote_identifier (fst kv) @ '' = %s'') set_items) @
            '' WHERE '', Some (map snd set_items))])"
proof (intro conjI impI)
  assume "select_fields \<noteq> Some []"
  then have a: "(case select_fields of None \<Rightarrow> True | Some fs \<Rightarrow> length fs \<noteq> 0)"
    by (cases select_fields) auto
  show "sent (get_record (recording_table t) [] select_fields) s =
        [(''SELECT '' @ (case select_fields of None \<Rightarrow> ''*'' | Some fs \<Rightarrow> join '','' fs) @
            '' FROM `'' @ name t @ ''` WHERE '', Some [])]"
    using a by (simp add: get_record_def get_record_sql_def make_where_statement_Nil
        sent_def bind_io_def return_io_def recording_def split: prod.splits sum.splits option.splits)
next
  show "sent (has_record (recording_table t) []) s =
        [(''SELECT COUNT(1) FROM `'' @ name t @ ''` WHERE '', Some [])]"
    by (simp add: has_record_def has_record_sql_def make_where_statement_Nil
        sent_def bind_io_def return_io_def recording_def split: prod.splits sum.splits)
next
  show "sent (delete_record (recording_table t) []) s =
        [(''DELETE FROM `'' @ name t @ ''` WHERE '', Some [])]"
    by (simp add: delete_record_def delete_record_sql_def make_where_statement_Nil
        sent_def bind_io_def return_io_def recording_def split: prod.splits sum.splits)
next
  assume "set_items \<noteq> []"
  then show "sent (update_record (recording_table t) [] set_items) s =
        [(''UPDATE `'' @ name t @ ''` SET '' @
            join '', '' (map (\<lambda>kv. quote_identifier (fst kv) @ '' = %s'') set_items) @
            '' WHERE '', Some (map snd set_items))]"
    by (simp add: update_record_def update_record_sql_def make_where_statement_Nil sent_step
        str_replace_backtick quote_identifier_def split_def)
qed

theorem empty_filter_where_clause_witness:
  "sent (get_record (recording_table (jobs_table (failing (DriverError ''syntax'')))) [] None) () =
     [(''SELECT * FROM `jobs` WHERE '', Some [])]
   \<and> sent (get_record (recording_table (jobs_table (failing (DriverError ''syntax''))))
        [] (Some [''id'', ''state''])) () =
     [(''SELECT id,state FROM `jobs` WHERE '', Some [])]
   \<and> sent (update_record (recording_table (jobs_table (failing (DriverError ''syntax''))))
        [] [(''state'', PyStr ''Ready'')]) () =
     [(''UPDATE `jobs` SET `state` = %s WHERE '', Some [PyStr ''Ready''])]"
  using empty_filter_where_clause
      [of None "jobs_table (failing (DriverError ''syntax''))" "()" "[(''state'', PyStr ''Ready'')]"]
    empty_filter_where_clause
      [of "Some [''id'', ''state'']" "jobs_table (failing (DriverError ''syntax''))" "()"
          "[(''state'', PyStr ''Ready'')]"]
  by (simp add: jobs_table_def quote_identifier_def double_backticks_def)

end
